theory Spec2Isabelle
  imports Main
begin

section \<open>Python values shared by the sample code\<close>

text \<open>
  The repository is a set of notebooks. Two of them carry Python: the Snowflake
  middleware sample (an Azure Function that runs a query, writes a CSV file, uploads it
  and answers with a presigned URL) and the routine-generation sample (one request to a
  text-generation endpoint per help-centre article, fanned out over a thread pool).

  Every external call of the samples is a parameter of the model whose result is either
  an exception or a value. The exceptions below are instances of Python's
  \<^verbatim>\<open>Exception\<close>, the class every \<^verbatim>\<open>except Exception as e\<close> of the samples
  catches; each carries the text \<^verbatim>\<open>str(e)\<close> that the handlers format into their
  message.
\<close>

datatype py_exception =
    AttributeError string
  | ValueError string
  | IndexError string
  | NameError string
  | TypeError string
  | OSError string
  | ServiceError string

fun exc_str :: "py_exception \<Rightarrow> string" where
  "exc_str (AttributeError m) = m"
| "exc_str (ValueError m) = m"
| "exc_str (IndexError m) = m"
| "exc_str (NameError m) = m"
| "exc_str (TypeError m) = m"
| "exc_str (OSError m) = m"
| "exc_str (ServiceError m) = m"

text \<open>
  What the samples write out: \<^verbatim>\<open>print\<close> goes to standard output,
  \<^verbatim>\<open>logging.info\<close> and \<^verbatim>\<open>logging.error\<close> to the function's log.
\<close>

datatype log_line = Printed string | LogInfo string | LogError string

section \<open>Routine generation: one request per article\<close>

text \<open>
  The loader builds every article as the dictionary
  \<^verbatim>\<open>{"policy": row["policy"], "content": row["content"]}\<close>, and
  \<^verbatim>\<open>process_article\<close> returns the same two keys and \<^verbatim>\<open>"routine"\<close>: the
  dictionaries are records with fixed fields. The routine is the return value of
  \<^verbatim>\<open>generate_routine\<close>, a string or \<^verbatim>\<open>None\<close>.
\<close>

record article =
  policy :: string
  content :: string

record routine_row = article +
  routine :: "string option"

text \<open>
  A chat message is the dictionary \<^verbatim>\<open>{"role": ..., "content": ...}\<close>, kept as an
  association list. Of the endpoint's response the sample reads
  \<^verbatim>\<open>response.choices[0].message.content\<close> only, so a response is the list of its
  choices' message contents (a content may be \<^verbatim>\<open>None\<close>). The client's
  \<^verbatim>\<open>chat.completions.create(model, messages)\<close> is the external call.
\<close>

type_synonym chat_message = "(string \<times> string) list"

type_synonym chat_completion = "string option list"

type_synonym chat_client = "string \<Rightarrow> chat_message list \<Rightarrow> py_exception + chat_completion"

definition MODEL :: string where
  \<open>MODEL = ''o1-preview''\<close>

definition CONVERSION_PROMPT :: string where
  \<open>CONVERSION_PROMPT =
     ''\<newline>'' @
     ''You are a helpful assistant tasked with taking an external facing help center article and converting it into a internal-facing programmatically executable routine optimized for an LLM. \<newline>'' @
     ''The LLM using this routine will be tasked with reading the policy, answering incoming questions from customers, and helping drive the case toward resolution.\<newline>'' @
     ''\<newline>'' @
     ''Please follow these instructions:\<newline>'' @
     ''1. **Review the customer service policy carefully** to ensure every step is accounted for. It is crucial not to skip any steps or policies.\<newline>'' @
     ''2. **Organize the instructions into a logical, step-by-step order**, using the specified format.\<newline>'' @
     ''3. **Use the following format**:\<newline>'' @
     ''   - **Main actions are numbered** (e.g., 1, 2, 3).\<newline>'' @
     ''   - **Sub-actions are lettered** under their relevant main actions (e.g., 1a, 1b).\<newline>'' @
     ''      **Sub-actions should start on new lines**\<newline>'' @
     ''   - **Specify conditions using clear 'if...then...else' statements** (e.g., 'If the product was purchased within 30 days, then...').\<newline>'' @
     ''   - **For instructions that require more information from the customer**, provide polite and professional prompts to ask for additional information.\<newline>'' @
     ''   - **For actions that require data from external systems**, write a step to call a function using backticks for the function name (e.g., `call the check_delivery_date function`).\<newline>'' @
     ''      - **If a step requires the customer service agent to take an action** (e.g., process a refund), generate a function call for this action (e.g., `call the process_refund function`).\<newline>'' @
     ''      - **Define any new functions** by providing a brief description of their purpose and required parameters.\<newline>'' @
     ''   - **If there is an action an assistant can performon behalf of the user**, include a function call for this action (e.g., `call the change_email_address function`), and ensure the function is defined with its purpose and required parameters.\<newline>'' @
     ''      - This action may not be explicitly defined in the help center article, but can be done to help the user resolve their inquiry faster\<newline>'' @
     ''   - **The step prior to case resolution should always be to ask if there is anything more you can assist with**.\<newline>'' @
     ''   - **End with a final action for case resolution**: calling the `case_resolution` function should always be the final step.\<newline>'' @
     ''4. **Ensure compliance** by making sure all steps adhere to company policies, privacy regulations, and legal requirements.\<newline>'' @
     ''5. **Handle exceptions or escalations** by specifying steps for scenarios that fall outside the standard policy.\<newline>'' @
     ''\<newline>'' @
     ''**Important**: If at any point you are uncertain, respond with "I don't know."\<newline>'' @
     ''\<newline>'' @
     ''Please convert the customer service policy into the formatted routine, ensuring it is easy to follow and execute programmatically.\<newline>'' @
     ''\<newline>''\<close>

text \<open>
  The f-string of \<^verbatim>\<open>generate_routine\<close>: the prompt, a blank line, the line
  \<^verbatim>\<open>POLICY:\<close> and the article's text, with the indentation of the source.
\<close>

definition routine_messages :: "string \<Rightarrow> chat_message list" where
  \<open>routine_messages policy_text =
     [[(''role'', ''user''),
       (''content'',
          ''\<newline>                    '' @ CONVERSION_PROMPT @ ''\<newline>'' @
          ''\<newline>                    POLICY:\<newline>'' @
          ''                    '' @ policy_text @ ''\<newline>'' @
          ''                '')]]\<close>

text \<open>
  \<^verbatim>\<open>generate_routine\<close> returns the content of the first choice. Everything in its
  body is inside \<^verbatim>\<open>try\<close>: a failure of the request, and the
  \<^verbatim>\<open>IndexError\<close> of \<^verbatim>\<open>choices[0]\<close> on an empty list, reach the
  \<^verbatim>\<open>except\<close> branch, which prints the message and falls off the end of the
  function, so the call returns \<^verbatim>\<open>None\<close>. The second component is what the call
  printed.
\<close>

definition generate_routine :: "chat_client \<Rightarrow> string \<Rightarrow> string option \<times> log_line list" where
  \<open>generate_routine create policy_text =
     (case create MODEL (routine_messages policy_text) of
        Inl e \<Rightarrow> (None, [Printed (''An error occurred: '' @ exc_str e)])
      | Inr response \<Rightarrow>
          (case response of
             [] \<Rightarrow>
               (None,
                [Printed (''An error occurred: '' @ exc_str (IndexError ''list index out of range''))])
           | message_content # _ \<Rightarrow> (message_content, [])))\<close>

definition process_article :: "chat_client \<Rightarrow> article \<Rightarrow> routine_row \<times> log_line list" where
  \<open>process_article create a =
     (let (r, out) = generate_routine create (content a)
      in (\<lparr>policy = policy a, content = content a, routine = r\<rparr>, out))\<close>

subsection \<open>The thread pool\<close>

text \<open>
  \<^verbatim>\<open>executor.map(fn, items)\<close> submits one task per item, each with a future of its
  own; the workers complete the tasks in an order the pool does not fix. A task stores
  its return value in its own future and appends what it printed to the shared standard
  output. \<^verbatim>\<open>list(executor.map(...))\<close> then reads the futures by position, waiting for
  each: it returns when every future is set and \<open>None\<close> stands for a call that would
  wait for ever. The order of completion is the list \<open>order\<close> of task indices.
\<close>

record 'r pool_state =
  futures :: "'r option list"
  stdout :: "log_line list"

definition run_task ::
  "('a \<Rightarrow> 'r \<times> log_line list) \<Rightarrow> 'a list \<Rightarrow> nat \<Rightarrow> 'r pool_state \<Rightarrow> 'r pool_state" where
  \<open>run_task fn items i st =
     (if i < length items
      then (let (r, out) = fn (items ! i)
            in st\<lparr>futures := (futures st)[i := Some r], stdout := stdout st @ out\<rparr>)
      else st)\<close>

definition executor_map ::
  "nat list \<Rightarrow> ('a \<Rightarrow> 'r \<times> log_line list) \<Rightarrow> 'a list \<Rightarrow> 'r list option \<times> log_line list" where
  \<open>executor_map order fn items =
     (let st = fold (run_task fn items) order
                 \<lparr>futures = replicate (length items) None, stdout = []\<rparr>
      in (those (futures st), stdout st))\<close>

text \<open>Every task completes exactly once: the order is a permutation of the indices.\<close>

definition completion_order :: "nat \<Rightarrow> nat list \<Rightarrow> bool" where
  \<open>completion_order n order = (sort order = [0..<n])\<close>

text \<open>
  The script's \<^verbatim>\<open>results = list(executor.map(process_article, articles))\<close>.
\<close>

definition routine_results ::
  "chat_client \<Rightarrow> nat list \<Rightarrow> article list \<Rightarrow> routine_row list option \<times> log_line list" where
  \<open>routine_results create order articles = executor_map order (process_article create) articles\<close>

section \<open>Snowflake middleware: the Azure Function's sample code\<close>

subsection \<open>Extracting the token and connecting\<close>

text \<open>
  \<^verbatim>\<open>str.split()\<close> with no argument splits at runs of whitespace and drops empty
  words. A header value is a Python string; a \<open>char\<close> here is a code point below 256,
  and \<open>py_isspace\<close> lists the code points below 256 for which
  \<^verbatim>\<open>str.isspace\<close> holds.
\<close>

definition py_isspace :: "char \<Rightarrow> bool" where
  \<open>py_isspace c =
     (let n = (of_char c :: nat)
      in (9 \<le> n \<and> n \<le> 13) \<or> (28 \<le> n \<and> n \<le> 32) \<or> n = 133 \<or> n = 160)\<close>

fun split_words :: "string \<Rightarrow> string \<Rightarrow> string list" where
  "split_words w [] = (if w = [] then [] else [w])"
| "split_words w (c # cs) =
     (if py_isspace c
      then (if w = [] then split_words [] cs else w # split_words [] cs)
      else split_words (w @ [c]) cs)"

definition py_split :: "string \<Rightarrow> string list" where
  \<open>py_split s = split_words [] s\<close>

text \<open>
  The first two statements of the connection cell stand before its \<^verbatim>\<open>try\<close>:
  \<^verbatim>\<open>auth_header = req.headers.get('Authorization')\<close> is \<^verbatim>\<open>None\<close> for a request
  without the header, and \<^verbatim>\<open>token_type, token = auth_header.split()\<close> raises
  \<^verbatim>\<open>AttributeError\<close> on \<^verbatim>\<open>None\<close> and \<^verbatim>\<open>ValueError\<close> when the
  list does not have two elements.
\<close>

definition extract_token :: "string option \<Rightarrow> py_exception + string \<times> string" where
  \<open>extract_token auth_header =
     (case auth_header of
        None \<Rightarrow>
          Inl (AttributeError
                 ([CHR 0x27] @ ''NoneType'' @ [CHR 0x27] @ '' object has no attribute '' @
                  [CHR 0x27] @ ''split'' @ [CHR 0x27]))
      | Some h \<Rightarrow>
          (case py_split h of
             [] \<Rightarrow> Inl (ValueError ''not enough values to unpack (expected 2, got 0)'')
           | [_] \<Rightarrow> Inl (ValueError ''not enough values to unpack (expected 2, got 1)'')
           | [token_type, token] \<Rightarrow> Inr (token_type, token)
           | _ # _ # _ # _ \<Rightarrow> Inl (ValueError ''too many values to unpack (expected 2)'')))\<close>

text \<open>
  The keyword arguments of \<^verbatim>\<open>snowflake.connector.connect\<close>. The user is
  \<^verbatim>\<open>decoded_token.get('upn')\<close>, \<^verbatim>\<open>None\<close> when the token has no such claim.
\<close>

record connect_args =
  user :: "string option"
  account :: string
  authenticator :: string
  token :: string
  warehouse :: string

text \<open>
  The external calls of the cell (\<^verbatim>\<open>jwt.decode\<close> with signature verification
  off, and the connector) and the two configuration constants the sample leaves to the
  reader.
\<close>

record 'conn connect_env =
  jwt_decode :: "string \<Rightarrow> py_exception + (string \<rightharpoonup> string)"
  snowflake_connect :: "connect_args \<Rightarrow> py_exception + 'conn"
  SNOWFLAKE_ACCOUNT :: string
  SNOWFLAKE_WAREHOUSE :: string

text \<open>
  The cell. \<open>Inl\<close> is an exception that leaves the cell uncaught; otherwise the cell
  ends with \<^verbatim>\<open>conn\<close> bound (\<open>Some\<close>) or not, and with the lines it logged.
\<close>

definition connect_to_snowflake ::
  "'conn connect_env \<Rightarrow> string option \<Rightarrow> py_exception + 'conn option \<times> log_line list" where
  \<open>connect_to_snowflake env auth_header =
     (case extract_token auth_header of
        Inl e \<Rightarrow> Inl e
      | Inr (token_type, tok) \<Rightarrow>
          Inr (case jwt_decode env tok of
                 Inl e \<Rightarrow> (None, [LogError (''Failed to connect to Snowflake: '' @ exc_str e)])
               | Inr decoded_token \<Rightarrow>
                   (let email = decoded_token ''upn''
                    in case snowflake_connect env
                              \<lparr>user = email, account = SNOWFLAKE_ACCOUNT env,
                               authenticator = ''oauth'', token = tok,
                               warehouse = SNOWFLAKE_WAREHOUSE env\<rparr> of
                         Inl e \<Rightarrow>
                           (None, [LogError (''Failed to connect to Snowflake: '' @ exc_str e)])
                       | Inr conn \<Rightarrow>
                           (Some conn, [LogInfo ''Successfully connected to Snowflake.'']))))\<close>

subsection \<open>Writing the result rows to a CSV file\<close>

text \<open>
  A file written through \<^verbatim>\<open>csv.writer\<close> is the sequence of its records, each a
  list of field texts; the writer turns every cell of a row into text (\<open>cell_text\<close>,
  Python's \<^verbatim>\<open>str\<close>, the identity on the column names). The file system maps a path
  to the records written to it. Creating the temporary file, writing one record and
  closing the file can each fail.
\<close>

type_synonym csv_file = "string list list"

type_synonym file_system = "string \<rightharpoonup> csv_file"

record file_io =
  NamedTemporaryFile :: "py_exception + string"
  write_record :: "string list \<Rightarrow> py_exception option"
  close_file :: "py_exception option"

definition writerow ::
  "file_io \<Rightarrow> string \<Rightarrow> string list \<Rightarrow> file_system \<Rightarrow> py_exception option \<times> file_system" where
  \<open>writerow io path row fs =
     (case write_record io row of
        Some e \<Rightarrow> (Some e, fs)
      | None \<Rightarrow> (None, fs(path \<mapsto> (case fs path of None \<Rightarrow> [] | Some recs \<Rightarrow> recs) @ [row])))\<close>

fun writerows ::
  "file_io \<Rightarrow> string \<Rightarrow> string list list \<Rightarrow> file_system \<Rightarrow> py_exception option \<times> file_system" where
  "writerows io path [] fs = (None, fs)"
| "writerows io path (row # rows) fs =
     (case writerow io path row fs of
        (Some e, fs') \<Rightarrow> (Some e, fs')
      | (None, fs') \<Rightarrow> writerows io path rows fs')"

text \<open>
  \<^verbatim>\<open>write_results_to_csv\<close> returns the path of the file, or \<^verbatim>\<open>None\<close> after
  its \<^verbatim>\<open>except\<close> branch has logged the failure; the file is created with
  \<^verbatim>\<open>delete=False\<close>, so what was written before a failure stays.
\<close>

definition write_results_to_csv ::
  "file_io \<Rightarrow> ('v \<Rightarrow> string) \<Rightarrow> file_system \<Rightarrow> 'v list list \<Rightarrow> string list \<Rightarrow>
   string option \<times> file_system \<times> log_line list" where
  \<open>write_results_to_csv io cell_text fs results column_names =
     (case NamedTemporaryFile io of
        Inl e \<Rightarrow> (None, fs, [LogError (''Error writing results to CSV: '' @ exc_str e)])
      | Inr name \<Rightarrow>
          (case writerow io name column_names (fs(name \<mapsto> [])) of
             (Some e, fs1) \<Rightarrow>
               (None, fs1, [LogError (''Error writing results to CSV: '' @ exc_str e)])
           | (None, fs1) \<Rightarrow>
               (case writerows io name (map (map cell_text) results) fs1 of
                  (Some e, fs2) \<Rightarrow>
                    (None, fs2, [LogError (''Error writing results to CSV: '' @ exc_str e)])
                | (None, fs2) \<Rightarrow>
                    (case close_file io of
                       Some e \<Rightarrow>
                         (None, fs2, [LogError (''Error writing results to CSV: '' @ exc_str e)])
                     | None \<Rightarrow> (Some name, fs2, [])))))\<close>

subsection \<open>Running the query\<close>

text \<open>
  The query cell. Its external calls are \<^verbatim>\<open>conn.cursor()\<close>,
  \<^verbatim>\<open>cursor.execute(sql_query)\<close> (which leaves the cursor in a new state) and
  \<^verbatim>\<open>cursor.fetchall()\<close>; \<^verbatim>\<open>cursor.description\<close> is a list of tuples that
  start with the column's name, or \<^verbatim>\<open>None\<close>. The cell starts outside its
  \<^verbatim>\<open>try\<close> with \<^verbatim>\<open>sql_query = req.params.get('sql_query')\<close>: the query
  is read from the parameters of the request (\<open>req_params\<close>) and is \<^verbatim>\<open>None\<close>
  when the parameter is missing.
\<close>

record ('conn, 'cur, 'v) query_env =
  cursor :: "'conn \<Rightarrow> py_exception + 'cur"
  execute :: "'cur \<Rightarrow> string option \<Rightarrow> py_exception + 'cur"
  fetchall :: "'cur \<Rightarrow> py_exception + 'v list list"
  description :: "'cur \<Rightarrow> (string \<times> string list) list option"



subsection \<open>Uploading the file and minting the presigned URL\<close>

text \<open>
  The permissions a shared access signature can grant.
  \<^verbatim>\<open>BlobSasPermissions(read=True)\<close> sets the read flag and leaves every other flag
  at its default \<^verbatim>\<open>False\<close>: the set \<open>{Read}\<close>.
\<close>

datatype blob_permission =
  Read | Add | Create | Write | Delete | DeletePreviousVersion | Tag

text \<open>
  A \<^verbatim>\<open>datetime\<close> is a count of microseconds, a \<^verbatim>\<open>timedelta\<close> a difference
  of two.
\<close>

type_synonym datetime = int

definition timedelta_hours :: "int \<Rightarrow> int" where
  \<open>timedelta_hours h = h * 3600 * 1000000\<close>

record sas_args =
  sas_account_name :: string
  sas_container_name :: string
  sas_blob_name :: string
  sas_account_key :: string
  permission :: "blob_permission set"
  expiry :: datetime

record content_settings =
  content_type :: string
  content_disposition :: string

text \<open>
  Of the service client the sample reads \<^verbatim>\<open>account_name\<close> and
  \<^verbatim>\<open>credential.account_key\<close>; reading the latter raises
  (\<^verbatim>\<open>AttributeError\<close>) when the connection string carries no account key.
\<close>

record blob_service_client =
  account_name :: string
  credential_account_key :: "py_exception + string"

record azure_env =
  from_connection_string :: "string \<Rightarrow> py_exception + blob_service_client"
  upload_blob ::
    "blob_service_client \<Rightarrow> string \<Rightarrow> string \<Rightarrow> csv_file \<Rightarrow> bool \<Rightarrow> content_settings \<Rightarrow>
     py_exception option"
  generate_blob_sas :: "sas_args \<Rightarrow> py_exception + string"
  utcnow :: datetime

text \<open>
  Every exception of the body reaches the \<^verbatim>\<open>except\<close> branch, which logs it and
  raises it again: the first component is \<open>Inl\<close> the exception that leaves the function,
  or \<open>Inr\<close> the URL returned.
\<close>

definition upload_failed ::
  "log_line list \<Rightarrow> py_exception \<Rightarrow> (py_exception + string) \<times> log_line list" where
  \<open>upload_failed logged e =
     (Inl e, logged @ [LogError (''Error uploading file to Azure Blob Storage: '' @ exc_str e)])\<close>

definition upload_csv_to_azure ::
  "azure_env \<Rightarrow> file_system \<Rightarrow> string \<Rightarrow> string \<Rightarrow> string \<Rightarrow> string \<Rightarrow>
   (py_exception + string) \<times> log_line list" where
  \<open>upload_csv_to_azure env fs file_path container_name blob_name connect_str =
     (case from_connection_string env connect_str of
        Inl e \<Rightarrow> upload_failed [] e
      | Inr blob_service_client \<Rightarrow>
          (case fs file_path of
             None \<Rightarrow>
               upload_failed []
                 (OSError (''[Errno 2] No such file or directory: '' @
                           [CHR 0x27] @ file_path @ [CHR 0x27]))
           | Some data \<Rightarrow>
               (case upload_blob env blob_service_client container_name blob_name data True
                       \<lparr>content_type = ''text/csv'',
                        content_disposition =
                          ''attachment; filename='' @ [CHR 0x22] @ blob_name @ [CHR 0x22]\<rparr> of
                  Some e \<Rightarrow> upload_failed [] e
                | None \<Rightarrow>
                    (let uploaded = LogInfo (''Successfully uploaded '' @ file_path @ '' to '' @
                                             container_name @ ''/'' @ blob_name)
                     in case credential_account_key blob_service_client of
                          Inl e \<Rightarrow> upload_failed [uploaded] e
                        | Inr key \<Rightarrow>
                            (case generate_blob_sas env
                                    \<lparr>sas_account_name = account_name blob_service_client,
                                     sas_container_name = container_name,
                                     sas_blob_name = blob_name,
                                     sas_account_key = key,
                                     permission = {Read},
                                     expiry = utcnow env + timedelta_hours 1\<rparr> of
                               Inl e \<Rightarrow> upload_failed [uploaded] e
                             | Inr sas_token \<Rightarrow>
                                 (let url = ''https://'' @ account_name blob_service_client @
                                            ''.blob.core.windows.net/'' @ container_name @
                                            ''/'' @ blob_name @ ''?'' @ sas_token
                                  in (Inr url,
                                      [uploaded, LogInfo (''Generated presigned URL: '' @ url)])))))))\<close>

subsection \<open>The response\<close>




subsection \<open>The OpenAPI schema of the action\<close>






section \<open>The thread pool returns the results by position\<close>

text \<open>
  Whatever the order of completion, every future ends up holding the value of its own
  task: a task writes to its own slot only.
\<close>

lemma those_map_Some: "those (map (\<lambda>x. Some (f x)) xs) = Some (map f xs)"
  by (induction xs) simp_all

lemma run_task_length: "length (futures (run_task fn items i st)) = length (futures st)"
  by (simp add: run_task_def Let_def split: prod.splits)

lemma fold_run_task_length:
  "length (futures (fold (run_task fn items) order st)) = length (futures st)"
  by (induction order arbitrary: st) (simp_all add: run_task_length)

lemma run_task_nth:
  "length (futures st) = length items \<Longrightarrow> j < length items \<Longrightarrow>
   futures (run_task fn items i st) ! j =
     (if j = i then Some (fst (fn (items ! j))) else futures st ! j)"
  by (auto simp: run_task_def Let_def split: prod.splits)

lemma fold_run_task_nth:
  "length (futures st) = length items \<Longrightarrow> j < length items \<Longrightarrow>
   futures (fold (run_task fn items) order st) ! j =
     (if j \<in> set order then Some (fst (fn (items ! j))) else futures st ! j)"
proof (induction order arbitrary: st rule: rev_induct)
  case Nil
  then show ?case by simp
next
  case (snoc i order)
  have len: "length (futures (fold (run_task fn items) order st)) = length items"
    using snoc.prems(1) by (simp add: fold_run_task_length)
  show ?case
    using snoc.IH [OF snoc.prems] run_task_nth [OF len snoc.prems(2), of fn i]
    by auto
qed

lemma completion_order_set: "completion_order n order \<Longrightarrow> set order = {0..<n}"
proof -
  assume "completion_order n order"
  then have "set (sort order) = set [0..<n]" by (simp add: completion_order_def)
  then show ?thesis by simp
qed

lemma executor_map_results:
  assumes "completion_order (length items) order"
  shows "fst (executor_map order fn items) = Some (map (\<lambda>x. fst (fn x)) items)"
proof -
  let ?st = "fold (run_task fn items) order \<lparr>futures = replicate (length items) None, stdout = []\<rparr>"
  have len: "length (futures ?st) = length items"
    by (simp add: fold_run_task_length)
  have "futures ?st = map (\<lambda>x. Some (fst (fn x))) items"
  proof (rule nth_equalityI)
    show "length (futures ?st) = length (map (\<lambda>x. Some (fst (fn x))) items)"
      using len by simp
  next
    fix j assume "j < length (futures ?st)"
    then have j: "j < length items" using len by simp
    then have "j \<in> set order" using completion_order_set [OF assms] by simp
    then show "futures ?st ! j = map (\<lambda>x. Some (fst (fn x))) items ! j"
      using j by (simp add: fold_run_task_nth)
  qed
  then show ?thesis by (simp add: executor_map_def Let_def those_map_Some)
qed

lemma process_article_row:
  "fst (process_article create a) =
     \<lparr>policy = policy a, content = content a,
      routine = fst (generate_routine create (content a))\<rparr>"
  by (simp add: process_article_def split: prod.splits)

lemma generate_routine_failure:
  "create MODEL (routine_messages p) = Inl e \<Longrightarrow>
   generate_routine create p = (None, [Printed (''An error occurred: '' @ exc_str e)])"
  by (simp add: generate_routine_def)

text \<open>
  Claim C1. For every list of articles and every order in which the workers complete,
  \<^verbatim>\<open>list(executor.map(process_article, articles))\<close> returns a list as long as
  the input whose i-th element is \<^verbatim>\<open>process_article\<close> of the i-th article: the
  parallel batch is the sequential map of \<^verbatim>\<open>process_article\<close> over the list.
\<close>

theorem parallel_batch_is_sequential_map:
  assumes "completion_order (length articles) order"
  shows "\<exists>results. fst (routine_results create order articles) = Some results
           \<and> length results = length articles
           \<and> (\<forall>i<length articles. results ! i = fst (process_article create (articles ! i)))
           \<and> results = map (\<lambda>a. fst (process_article create a)) articles"
  using executor_map_results [OF assms, of "process_article create"]
  by (simp add: routine_results_def)

theorem parallel_batch_is_sequential_map_witness:
  "completion_order 2 [1, 0]
   \<and> fst (routine_results (\<lambda>m msgs. Inr [Some ''1. Greet'']) [1, 0]
            [\<lparr>policy = ''P'', content = ''p''\<rparr>, \<lparr>policy = ''Q'', content = ''q''\<rparr>])
     = Some [\<lparr>policy = ''P'', content = ''p'', routine = Some ''1. Greet''\<rparr>,
             \<lparr>policy = ''Q'', content = ''q'', routine = Some ''1. Greet''\<rparr>]"
proof -
  have h: "completion_order 2 [1, 0]"
    by code_simp
  have h': "completion_order
              (length [\<lparr>policy = ''P'', content = ''p''\<rparr>, \<lparr>policy = ''Q'', content = ''q''\<rparr>]) [1, 0]"
    by code_simp
  have "fst (routine_results (\<lambda>m msgs. Inr [Some ''1. Greet'']) [1, 0]
            [\<lparr>policy = ''P'', content = ''p''\<rparr>, \<lparr>policy = ''Q'', content = ''q''\<rparr>])
     = Some [\<lparr>policy = ''P'', content = ''p'', routine = Some ''1. Greet''\<rparr>,
             \<lparr>policy = ''Q'', content = ''q'', routine = Some ''1. Greet''\<rparr>]"
    using parallel_batch_is_sequential_map [OF h', of "\<lambda>m msgs. Inr [Some ''1. Greet'']"]
    by (simp add: process_article_def generate_routine_def routine_messages_def)
  with h show ?thesis by blast
qed

text \<open>
  Claim C7. For every article of the input list, the record at the same position of the
  results has the article's policy and content unchanged; it is the article with the
  routine field added, and dropping that field gives the article back.
\<close>

theorem process_article_keeps_policy_and_content:
  assumes "completion_order (length articles) order" and "i < length articles"
  shows "\<exists>results r. fst (routine_results create order articles) = Some results
           \<and> policy (results ! i) = policy (articles ! i)
           \<and> content (results ! i) = content (articles ! i)
           \<and> results ! i = \<lparr>policy = policy (articles ! i), content = content (articles ! i), routine = r\<rparr>
           \<and> article.truncate (results ! i) = articles ! i"
  using executor_map_results [OF assms(1), of "process_article create"] assms(2)
  by (simp add: routine_results_def process_article_row article.truncate_def)

theorem process_article_keeps_policy_and_content_witness:
  "completion_order 2 [1, 0] \<and> (1::nat) < 2
   \<and> (\<exists>results.
         fst (routine_results (\<lambda>m msgs. Inr [Some ''1. Greet'']) [1, 0]
                [\<lparr>policy = ''P'', content = ''p''\<rparr>, \<lparr>policy = ''Q'', content = ''q''\<rparr>])
           = Some results
         \<and> policy (results ! 1) = ''Q'' \<and> content (results ! 1) = ''q'')"
proof -
  let ?arts = "[\<lparr>policy = ''P'', content = ''p''\<rparr>, \<lparr>policy = ''Q'', content = ''q''\<rparr>]"
  have h: "completion_order 2 [1, 0]"
    by code_simp
  have h': "completion_order (length ?arts) [1, 0]"
    by code_simp
  have i: "(1::nat) < length ?arts"
    by simp
  show ?thesis
    using h process_article_keeps_policy_and_content [OF h' i, of "\<lambda>m msgs. Inr [Some ''1. Greet'']"]
    by auto
qed

text \<open>
  Claim C8. When two input lists agree on their i-th article, the i-th results agree,
  whatever the other articles are and in whatever order the workers of either run
  complete (the endpoint being a function of the request).
\<close>

theorem article_result_independent_of_other_articles:
  assumes "completion_order (length xs) order1" and "completion_order (length ys) order2"
    and "i < length xs" and "i < length ys" and "xs ! i = ys ! i"
  shows "\<exists>r1 r2. fst (routine_results create order1 xs) = Some r1
           \<and> fst (routine_results create order2 ys) = Some r2
           \<and> r1 ! i = r2 ! i"
  using executor_map_results [OF assms(1), of "process_article create"]
    executor_map_results [OF assms(2), of "process_article create"] assms(3-5)
  by (simp add: routine_results_def)

theorem article_result_independent_of_other_articles_witness:
  "completion_order 2 [1, 0] \<and> completion_order 3 [2, 0, 1]
   \<and> (\<exists>r1 r2.
         fst (routine_results (\<lambda>m msgs. Inr [Some ''1. Greet'']) [1, 0]
                [\<lparr>policy = ''P'', content = ''p''\<rparr>, \<lparr>policy = ''Q'', content = ''q''\<rparr>])
           = Some r1
         \<and> fst (routine_results (\<lambda>m msgs. Inr [Some ''1. Greet'']) [2, 0, 1]
                [\<lparr>policy = ''R'', content = ''r''\<rparr>, \<lparr>policy = ''Q'', content = ''q''\<rparr>,
                 \<lparr>policy = ''S'', content = ''s''\<rparr>])
           = Some r2
         \<and> r1 ! 1 = r2 ! 1)"
proof -
  let ?xs = "[\<lparr>policy = ''P'', content = ''p''\<rparr>, \<lparr>policy = ''Q'', content = ''q''\<rparr>]"
  let ?ys = "[\<lparr>policy = ''R'', content = ''r''\<rparr>, \<lparr>policy = ''Q'', content = ''q''\<rparr>,
              \<lparr>policy = ''S'', content = ''s''\<rparr>]"
  have h1: "completion_order 2 [1, 0]" and h2: "completion_order 3 [2, 0, 1]"
    by code_simp+
  have h1': "completion_order (length ?xs) [1, 0]" and h2': "completion_order (length ?ys) [2, 0, 1]"
    by code_simp+
  have i: "(1::nat) < length ?xs" "(1::nat) < length ?ys" "?xs ! 1 = ?ys ! 1"
    by simp_all
  show ?thesis
    using h1 h2
      article_result_independent_of_other_articles [OF h1' h2' i, of "\<lambda>m msgs. Inr [Some ''1. Greet'']"]
    by blast
qed

text \<open>
  Claim C9. When the request for an article raises, \<^verbatim>\<open>generate_routine\<close> prints
  the message and returns \<^verbatim>\<open>None\<close>, and the article still has its record in the
  results, with routine \<^verbatim>\<open>None\<close>; the results are as many as the articles
  whether or not requests fail.
\<close>

theorem failed_article_keeps_its_row:
  assumes "completion_order (length articles) order"
  shows "\<exists>results. fst (routine_results create order articles) = Some results
           \<and> length results = length articles
           \<and> (\<forall>i<length articles. \<forall>e.
                 create MODEL (routine_messages (content (articles ! i))) = Inl e \<longrightarrow>
                   generate_routine create (content (articles ! i)) =
                     (None, [Printed (''An error occurred: '' @ exc_str e)])
                   \<and> results ! i =
                       \<lparr>policy = policy (articles ! i), content = content (articles ! i),
                        routine = None\<rparr>)"
  using executor_map_results [OF assms, of "process_article create"]
  by (auto simp: routine_results_def process_article_row generate_routine_failure)

theorem failed_article_keeps_its_row_witness:
  "completion_order 2 [1, 0]
   \<and> (\<exists>results.
         fst (routine_results
                (\<lambda>m msgs. if msgs = routine_messages ''q'' then Inl (ServiceError ''timeout'')
                           else Inr [Some ''1. Greet''])
                [1, 0]
                [\<lparr>policy = ''P'', content = ''p''\<rparr>, \<lparr>policy = ''Q'', content = ''q''\<rparr>])
           = Some results
         \<and> length results = 2
         \<and> results ! 1 = \<lparr>policy = ''Q'', content = ''q'', routine = None\<rparr>)"
proof -
  let ?c = "\<lambda>m msgs. if msgs = routine_messages ''q'' then Inl (ServiceError ''timeout'')
                       else Inr [Some ''1. Greet'']"
  let ?arts = "[\<lparr>policy = ''P'', content = ''p''\<rparr>, \<lparr>policy = ''Q'', content = ''q''\<rparr>]"
  have h: "completion_order 2 [1, 0]"
    by code_simp
  have h': "completion_order (length ?arts) [1, 0]"
    by code_simp
  have fails: "?c MODEL (routine_messages (content (?arts ! 1))) = Inl (ServiceError ''timeout'')"
    by simp
  obtain results where res: "fst (routine_results ?c [1, 0] ?arts) = Some results"
      "length results = length ?arts"
    and rows: "\<forall>i<length ?arts. \<forall>e.
                 ?c MODEL (routine_messages (content (?arts ! i))) = Inl e \<longrightarrow>
                   generate_routine ?c (content (?arts ! i)) =
                     (None, [Printed (''An error occurred: '' @ exc_str e)])
                   \<and> results ! i =
                       \<lparr>policy = policy (?arts ! i), content = content (?arts ! i),
                        routine = None\<rparr>"
    using failed_article_keeps_its_row [OF h', of ?c] by blast
  have "(1::nat) < length ?arts" by simp
  with rows fails have "results ! 1 =
      \<lparr>policy = policy (?arts ! 1), content = content (?arts ! 1), routine = None\<rparr>"
    by blast
  then have "results ! 1 = \<lparr>policy = ''Q'', content = ''q'', routine = None\<rparr>"
    by simp
  with h res show ?thesis by simp
qed

section \<open>The CSV file holds the header and then the rows\<close>

lemma writerows_all_written:
  "fs path = Some recs \<Longrightarrow> \<forall>row\<in>set rows. write_record io row = None \<Longrightarrow>
   writerows io path rows fs = (None, fs(path \<mapsto> recs @ rows))"
proof (induction rows arbitrary: fs recs)
  case Nil
  then show ?case by (simp add: map_upd_triv)
next
  case (Cons row rows)
  have step: "writerow io path row fs = (None, fs(path \<mapsto> recs @ [row]))"
    using Cons.prems by (simp add: writerow_def)
  have "writerows io path rows (fs(path \<mapsto> recs @ [row])) =
          (None, (fs(path \<mapsto> recs @ [row]))(path \<mapsto> (recs @ [row]) @ rows))"
  proof (rule Cons.IH)
    show "(fs(path \<mapsto> recs @ [row])) path = Some (recs @ [row])"
      by simp
    show "\<forall>r\<in>set rows. write_record io r = None"
      using Cons.prems(2) by simp
  qed
  then have r: "writerows io path rows (fs(path \<mapsto> recs @ [row])) =
          (None, fs(path \<mapsto> recs @ row # rows))" by simp
  have "writerows io path (row # rows) fs = writerows io path rows (fs(path \<mapsto> recs @ [row]))"
    by (simp add: step)
  also note r
  finally show ?case .
qed

text \<open>
  Claim C4. For every list of result rows and every list of column names, when the
  temporary file can be created, written and closed, \<^verbatim>\<open>write_results_to_csv\<close>
  returns the path of a file whose first record is the column names and whose following
  records are the result rows in their order, one record for each row (each cell as the
  writer's text of it).
\<close>

theorem write_results_to_csv_header_then_rows:
  assumes "NamedTemporaryFile io = Inr name"
    and "\<forall>row\<in>set (column_names # map (map cell_text) results). write_record io row = None"
    and "close_file io = None"
  shows "\<exists>fs' file. write_results_to_csv io cell_text fs results column_names = (Some name, fs', [])
           \<and> fs' name = Some file
           \<and> file = column_names # map (map cell_text) results
           \<and> hd file = column_names
           \<and> length file = 1 + length results
           \<and> (\<forall>i<length results. file ! (i + 1) = map cell_text (results ! i))"
proof -
  have first: "writerow io name column_names (fs(name \<mapsto> [])) = (None, fs(name \<mapsto> [column_names]))"
    using assms(2) by (simp add: writerow_def)
  have "writerows io name (map (map cell_text) results) (fs(name \<mapsto> [column_names])) =
          (None, (fs(name \<mapsto> [column_names]))(name \<mapsto> [column_names] @ map (map cell_text) results))"
  proof (rule writerows_all_written)
    show "(fs(name \<mapsto> [column_names])) name = Some [column_names]"
      by simp
    show "\<forall>row\<in>set (map (map cell_text) results). write_record io row = None"
      using assms(2) by simp
  qed
  then have rest: "writerows io name (map (map cell_text) results) (fs(name \<mapsto> [column_names])) =
          (None, fs(name \<mapsto> column_names # map (map cell_text) results))"
    by simp
  show ?thesis
    using assms(1,3) first rest by (simp add: write_results_to_csv_def)
qed

theorem write_results_to_csv_header_then_rows_witness:
  "(\<exists>fs'. write_results_to_csv
             \<lparr>NamedTemporaryFile = Inr ''/tmp/tmpab12'', write_record = (\<lambda>row. None), close_file = None\<rparr>
             (\<lambda>v. case v of None \<Rightarrow> '''' | Some t \<Rightarrow> t) Map.empty
             [[Some ''1'', Some ''JFK''], [Some ''2'', None]] [''ID'', ''ORIGIN'']
           = (Some ''/tmp/tmpab12'', fs', [])
         \<and> fs' ''/tmp/tmpab12'' = Some [[''ID'', ''ORIGIN''], [''1'', ''JFK''], [''2'', '''']])"
  using write_results_to_csv_header_then_rows
          [of "\<lparr>NamedTemporaryFile = Inr ''/tmp/tmpab12'', write_record = (\<lambda>row. None), close_file = None\<rparr>"
              "''/tmp/tmpab12''" "[''ID'', ''ORIGIN'']" "\<lambda>v. case v of None \<Rightarrow> '''' | Some t \<Rightarrow> t"
              "[[Some ''1'', Some ''JFK''], [Some ''2'', None]]" Map.empty]
  by auto

section \<open>The presigned URL\<close>

text \<open>
  Claim C6. Whenever \<^verbatim>\<open>upload_csv_to_azure\<close> returns a URL, the URL is the blob's
  URL followed by \<^verbatim>\<open>?\<close> and a SAS token, and that token was generated for this
  blob with the read permission only and an expiry one hour (3600 seconds, in
  microseconds) after the clock reading taken when it was generated.
\<close>

theorem presigned_url_read_only_one_hour:
  assumes "fst (upload_csv_to_azure env fs file_path container_name blob_name connect_str) = Inr url"
  shows "\<exists>client args sas_token.
           from_connection_string env connect_str = Inr client
           \<and> generate_blob_sas env args = Inr sas_token
           \<and> sas_container_name args = container_name
           \<and> sas_blob_name args = blob_name
           \<and> sas_account_name args = account_name client
           \<and> permission args = {Read}
           \<and> expiry args = utcnow env + 3600 * 1000000
           \<and> url = (''https://'' @ account_name client @ ''.blob.core.windows.net/'' @
                    container_name @ ''/'' @ blob_name) @ ''?'' @ sas_token"
proof -
  from assms obtain client data key sas_token where
    c: "from_connection_string env connect_str = Inr client"
    and k: "credential_account_key client = Inr key"
    and g: "generate_blob_sas env
              \<lparr>sas_account_name = account_name client, sas_container_name = container_name,
               sas_blob_name = blob_name, sas_account_key = key, permission = {Read},
               expiry = utcnow env + timedelta_hours 1\<rparr> = Inr sas_token"
    and u: "url = ''https://'' @ account_name client @ ''.blob.core.windows.net/'' @
                  container_name @ ''/'' @ blob_name @ ''?'' @ sas_token"
    by (auto simp: upload_csv_to_azure_def upload_failed_def Let_def
             split: sum.splits option.splits)
  let ?args = "\<lparr>sas_account_name = account_name client, sas_container_name = container_name,
               sas_blob_name = blob_name, sas_account_key = key, permission = {Read},
               expiry = utcnow env + timedelta_hours 1\<rparr>"
  have "expiry ?args = utcnow env + 3600 * 1000000"
    by (simp add: timedelta_hours_def)
  with c g u show ?thesis
    by (intro exI [of _ client] exI [of _ ?args] exI [of _ sas_token]) simp
qed

theorem presigned_url_read_only_one_hour_witness:
  "fst (upload_csv_to_azure
          \<lparr>from_connection_string =
             (\<lambda>s. Inr \<lparr>account_name = ''acct'', credential_account_key = Inr ''key''\<rparr>),
           upload_blob = (\<lambda>client container blob data overwrite settings. None),
           generate_blob_sas = (\<lambda>args. Inr ''sp=r&sig=abc''),
           utcnow = 1700000000\<rparr>
          [''/tmp/tmpab12'' \<mapsto> [[''ID''], [''1'']]]
          ''/tmp/tmpab12'' ''exports'' ''result.csv'' ''AccountName=acct;AccountKey=key'')
     = Inr ''https://acct.blob.core.windows.net/exports/result.csv?sp=r&sig=abc''
   \<and> (\<exists>(args::sas_args) sas_token.
         permission args = {Read} \<and> expiry args = 1700000000 + 3600 * 1000000
         \<and> ''https://acct.blob.core.windows.net/exports/result.csv?sp=r&sig=abc'' =
             ''https://acct.blob.core.windows.net/exports/result.csv'' @ ''?'' @ sas_token)"
proof -
  let ?env = "\<lparr>from_connection_string =
             (\<lambda>s. Inr \<lparr>account_name = ''acct'', credential_account_key = Inr ''key''\<rparr>),
           upload_blob = (\<lambda>client container blob data overwrite settings. None),
           generate_blob_sas = (\<lambda>args. Inr ''sp=r&sig=abc''),
           utcnow = 1700000000\<rparr>"
  have ok: "fst (upload_csv_to_azure ?env [''/tmp/tmpab12'' \<mapsto> [[''ID''], [''1'']]]
                  ''/tmp/tmpab12'' ''exports'' ''result.csv'' ''AccountName=acct;AccountKey=key'')
            = Inr ''https://acct.blob.core.windows.net/exports/result.csv?sp=r&sig=abc''"
    by (simp add: upload_csv_to_azure_def Let_def)
  have "\<exists>(args::sas_args) sas_token.
         permission args = {Read} \<and> expiry args = 1700000000 + 3600 * 1000000
         \<and> ''https://acct.blob.core.windows.net/exports/result.csv?sp=r&sig=abc'' =
             ''https://acct.blob.core.windows.net/exports/result.csv'' @ ''?'' @ sas_token"
    using presigned_url_read_only_one_hour [OF ok] by auto
  with ok show ?thesis by (rule conjI)
qed

section \<open>The token is extracted before the try\<close>

text \<open>
  Claim C10. A request with no Authorization header leaves the connection cell with an
  uncaught \<^verbatim>\<open>AttributeError\<close>, and one whose header does not split into exactly
  two words with an uncaught \<^verbatim>\<open>ValueError\<close>, both raised before the
  \<^verbatim>\<open>try\<close>; the cell gets as far as its \<^verbatim>\<open>try\<close> (and so to the branch that
  logs a failed connection) only for a header of exactly two words.
\<close>

theorem token_extraction_before_try:
  "(auth_header = None \<longrightarrow> (\<exists>m. connect_to_snowflake env auth_header = Inl (AttributeError m)))
   \<and> (\<forall>h. auth_header = Some h \<and> length (py_split h) \<noteq> 2 \<longrightarrow>
          (\<exists>m. connect_to_snowflake env auth_header = Inl (ValueError m)))
   \<and> (\<forall>r. connect_to_snowflake env auth_header = Inr r \<longrightarrow>
          (\<exists>h token_type tok. auth_header = Some h \<and> py_split h = [token_type, tok]))"
  by (auto simp: connect_to_snowflake_def extract_token_def
           split: option.splits list.splits sum.splits)

theorem token_extraction_before_try_witness:
  "length (py_split ''Bearer'') \<noteq> 2
   \<and> (\<exists>m. connect_to_snowflake
           \<lparr>jwt_decode = (\<lambda>t. Inl (ServiceError ''Not enough segments'')),
            snowflake_connect = (\<lambda>args. Inr ()),
            SNOWFLAKE_ACCOUNT = ''ab12345.eastus2.azure'', SNOWFLAKE_WAREHOUSE = ''WH''\<rparr>
           (Some ''Bearer'') = Inl (ValueError m))
   \<and> connect_to_snowflake
         \<lparr>jwt_decode = (\<lambda>t. Inl (ServiceError ''Not enough segments'')),
          snowflake_connect = (\<lambda>args. Inr ()),
          SNOWFLAKE_ACCOUNT = ''ab12345.eastus2.azure'', SNOWFLAKE_WAREHOUSE = ''WH''\<rparr>
         (Some ''Bearer abc'') =
       Inr (None, [LogError ''Failed to connect to Snowflake: Not enough segments''])
   \<and> (\<exists>token_type tok. py_split ''Bearer abc'' = [token_type, tok])"
proof -
  let ?env = "\<lparr>jwt_decode = (\<lambda>t. Inl (ServiceError ''Not enough segments'')),
               snowflake_connect = (\<lambda>args. Inr ()),
               SNOWFLAKE_ACCOUNT = ''ab12345.eastus2.azure'', SNOWFLAKE_WAREHOUSE = ''WH''\<rparr>"
  have short: "length (py_split ''Bearer'') \<noteq> 2"
    by (simp add: py_split_def py_isspace_def)
  have raised: "\<exists>m. connect_to_snowflake ?env (Some ''Bearer'') = Inl (ValueError m)"
    using token_extraction_before_try [of "Some ''Bearer''" ?env] short by simp
  have logged: "connect_to_snowflake ?env (Some ''Bearer abc'') =
                  Inr (None, [LogError ''Failed to connect to Snowflake: Not enough segments''])"
    by (simp add: connect_to_snowflake_def extract_token_def py_split_def py_isspace_def)
  have "\<exists>h token_type tok. Some ''Bearer abc'' = Some h \<and> py_split h = [token_type, tok]"
    using token_extraction_before_try [of "Some ''Bearer abc''" ?env] logged by simp
  then have two: "\<exists>token_type tok. py_split ''Bearer abc'' = [token_type, tok]"
    by simp
  show ?thesis
    using short raised logged two by simp
qed

section \<open>The action's schema and the function's response\<close>




section \<open>Failures of the external calls\<close>



















end
